theory Spec2Isabelle
  imports Complex_Main "HOL-Library.AList"
begin

section \<open>Exceptions, the telemetry sink and the observable world\<close>

text \<open>
  A value of \<open>exn\<close> is an instance of Python's \<open>Exception\<close>: what the handlers
  \<open>except Exception\<close> of both modules catch. A computation that may raise returns
  \<open>exn + 'a\<close>, with \<open>Inl\<close> for the raised exception. Exits and interrupts
  (\<open>BaseException\<close> outside \<open>Exception\<close>) are not modelled.
\<close>

datatype exn = ValueError string | KeyError string | AttributeError string | Exception string

text \<open>What a wrapped host function returns (\<open>Any\<close> in the source).\<close>

datatype pyvalue = PyNone | PyInt int | PyStr string

subsection \<open>Source locations and callback descriptors (\<open>StackInfo\<close>, \<open>_CallbackAttributes\<close>)\<close>

text \<open>
  \<open>StackInfo\<close> is a \<open>TypedDict\<close> with \<open>total=False\<close>: each of the keys
  \<open>code.filepath\<close>, \<open>code.lineno\<close>, \<open>code.function\<close> may be absent.
  \<open>_CallbackAttributes\<close> extends it with the key \<open>name\<close>, which
  \<open>_callback_attributes\<close> sets on every path that returns.
\<close>

record StackInfo =
  code_filepath :: "string option"
  code_lineno :: "int option"
  code_function :: "string option"

record CallbackAttributes = StackInfo +
  name :: string

subsection \<open>Values of the request pipeline\<close>

text \<open>
  The resolved dependency values are a \<open>dict\<close> from parameter names to objects; the
  five framework classes line 81 of \<open>_fastapi.py\<close> filters out are told apart from
  user data. Python dictionaries keep insertion order, so a dictionary is an association
  list.
\<close>

datatype pyval =
  RequestObj | WebSocketObj | BackgroundTasksObj | SecurityScopesObj | ResponseObj
  | UserValue string

type_synonym values_dict = "(string \<times> pyval) list"

datatype attr = AttrValues values_dict | AttrErrors "string list" | AttrStr string | AttrNone

type_synonym attributes = "(string \<times> attr) list"

datatype level = Debug | Warn | Error

subsection \<open>The sink\<close>

text \<open>
  The sink (a \<open>Logfire\<close> instance) is an external collaborator. The model records every
  call the instrumentation makes to it, in order, with the tags of the instance called;
  whether a call then raises is the sink's own behaviour, a parameter of the instance.
\<close>

datatype event =
  WarnCall "string list" string rat CallbackAttributes
  | LogCall "string list" level string attributes
  | ExceptionCall "string list" string
  | SpanCall "string list" string string string
  | SpanExit

record Logfire =
  lf_tags :: "string list"
  lf_raises :: "event \<Rightarrow> exn option"

definition with_tags :: "Logfire \<Rightarrow> string \<Rightarrow> Logfire" where
  "with_tags lf t = lf\<lparr>lf_tags := lf_tags lf @ [t]\<rparr>"

section \<open>Objects the callback resolver inspects\<close>

type_synonym addr = nat

record code =
  co_filename :: string
  co_name :: string
  co_firstlineno :: int

record frame =
  f_code :: code
  f_lineno :: int

text \<open>
  \<open>task.get_coro()\<close> is a \<open>CoroutineType\<close> (with its \<open>cr_frame\<close>, \<open>None\<close> once it
  has finished, and its \<open>cr_code\<close>) or some other awaitable.
\<close>

datatype coro = CoroutineType "frame option" code | NotCoroutineType

record Task =
  get_name :: string
  get_coro :: coro

text \<open>\<open>getattr(callback, '__self__', None)\<close>: absent, a \<open>Task\<close>, or another object.\<close>

datatype receiver = NoSelf | TaskSelf Task | OtherSelf

text \<open>
  An object as the resolver sees it: the attributes it reads with \<open>getattr\<close> (absent
  is \<open>None\<close>), and what \<open>repr\<close> does on it. \<open>__wrapped__\<close> refers to another object
  by address, so that wrapper chains can share objects and can be cyclic.
\<close>

record pyobj =
  self_attr :: receiver
  wrapped_attr :: "addr option"
  code_attr :: "code option"
  qualname_attr :: "string option"
  name_attr :: "string option"
  repr :: "exn + string"

record world =
  clock :: int
  heap :: "addr \<Rightarrow> pyobj"
  trace :: "event list"

definition sink_call :: "Logfire \<Rightarrow> event \<Rightarrow> world \<Rightarrow> (exn + unit) \<times> world" where
  "sink_call lf ev w =
     ((case lf_raises lf ev of None \<Rightarrow> Inr () | Some e \<Rightarrow> Inl e),
      w\<lparr>trace := trace w @ [ev]\<rparr>)"

section \<open>\<open>logfire/_async.py\<close>\<close>

subsection \<open>\<open>inspect.unwrap\<close> (standard library)\<close>

text \<open>
  CPython's \<open>inspect.unwrap\<close> follows the \<open>__wrapped__\<close> chain to its end, keeping the
  ids of the objects seen in \<open>memo\<close>; it raises \<open>ValueError\<close> when an object comes
  again or when \<open>memo\<close> has reached \<open>sys.getrecursionlimit()\<close>. (Recent versions do
  not unwrap a class; the callables of this model are not classes.)
\<close>

function unwrap_loop :: "(addr \<Rightarrow> pyobj) \<Rightarrow> nat \<Rightarrow> addr list \<Rightarrow> addr \<Rightarrow> exn + addr" where
  "unwrap_loop hp limit memo func =
     (case wrapped_attr (hp func) of
        None \<Rightarrow> Inr func
      | Some w \<Rightarrow>
          if w \<in> set memo \<or> limit \<le> length memo then Inl (ValueError ''wrapper loop when unwrapping'')
          else unwrap_loop hp limit (memo @ [w]) w)"
  by pat_completeness auto
termination
  by (relation "measure (\<lambda>(hp, limit, memo, func). limit - length memo)") auto

definition unwrap :: "(addr \<Rightarrow> pyobj) \<Rightarrow> nat \<Rightarrow> addr \<Rightarrow> exn + addr" where
  "unwrap hp limit func = unwrap_loop hp limit [func] func"

subsection \<open>Helpers of the repository that are not among the sources\<close>

text \<open>
  \<open>get_stack_info_from_frame\<close> and \<open>get_code_object_info\<close> (module
  \<open>logfire._stack_info\<close>) are parameters, together with the interpreter's recursion
  limit.
\<close>

record env =
  get_stack_info_from_frame :: "frame \<Rightarrow> StackInfo"
  get_code_object_info :: "code \<Rightarrow> StackInfo"
  getrecursionlimit :: nat

text \<open>
  Modelled from the spec: \<open>logfire._utils.safe_repr\<close> is not among the sources. The
  spec asks for a fallback string representation that never itself raises, any exception
  during repr-like formatting being caught and replaced with a placeholder.
\<close>

definition safe_repr :: "pyobj \<Rightarrow> string" where
  "safe_repr obj = (case repr obj of Inr s \<Rightarrow> s | Inl e \<Rightarrow> ''<unknown (repr failed)>'')"

subsection \<open>\<open>_callback_attributes\<close>\<close>

definition getattr_str :: "string option \<Rightarrow> string" where
  "getattr_str a = (case a of None \<Rightarrow> [] | Some s \<Rightarrow> s)"

text \<open>Python's \<open>a or b\<close> on strings: the empty string is falsy.\<close>

definition str_or :: "string \<Rightarrow> string \<Rightarrow> string" where
  "str_or a b = (if a \<noteq> [] then a else b)"

definition with_name :: "string \<Rightarrow> StackInfo \<Rightarrow> CallbackAttributes" where
  "with_name nm info =
     \<lparr>code_filepath = code_filepath info, code_lineno = code_lineno info,
      code_function = code_function info, name = nm\<rparr>"

definition no_info :: StackInfo where
  "no_info = \<lparr>code_filepath = None, code_lineno = None, code_function = None\<rparr>"

definition callback_attributes :: "env \<Rightarrow> (addr \<Rightarrow> pyobj) \<Rightarrow> addr \<Rightarrow> exn + CallbackAttributes" where
  "callback_attributes ev hp callback =
     (case self_attr (hp callback) of
        TaskSelf task \<Rightarrow>
          (let result_name = ''task '' @ get_name task in
           case get_coro task of
             NotCoroutineType \<Rightarrow> Inr (with_name result_name no_info)
           | CoroutineType cr_frame cr_code \<Rightarrow>
               (let info = (case cr_frame of
                              Some fr \<Rightarrow> get_stack_info_from_frame ev fr
                            | None \<Rightarrow> get_code_object_info ev cr_code);
                    function_name = getattr_str (code_function info)
                in if function_name \<noteq> []
                   then Inr (with_name (result_name @ '' ('' @ function_name @ '')'') info)
                   else Inr (with_name result_name info)))
      | _ \<Rightarrow>
          (case unwrap hp (getrecursionlimit ev) callback of
             Inl e \<Rightarrow> Inl e
           | Inr cb \<Rightarrow>
               (let info = (case code_attr (hp cb) of
                              Some c \<Rightarrow> get_code_object_info ev c
                            | None \<Rightarrow> no_info);
                    nm = str_or (getattr_str (qualname_attr (hp cb)))
                           (str_or (getattr_str (name_attr (hp cb)))
                              (getattr_str (code_function info)));
                    nm' = str_or nm (safe_repr (hp cb))
                in Inr (with_name (''callback '' @ nm') info))))"

subsection \<open>\<open>log_slow_callbacks\<close>, \<open>patched_run\<close> and \<open>patch_context\<close>\<close>

definition ONE_SECOND_IN_NANOSECONDS :: int where
  "ONE_SECOND_IN_NANOSECONDS = 1000000000"

text \<open>An \<open>asyncio.events.Handle\<close>: the resolver reads its \<open>_callback\<close>.\<close>

record Handle =
  callback :: addr

text \<open>
  \<open>timer\<close> is \<open>logfire.config.ns_timestamp_generator\<close>: it reads the clock of the
  world. The threshold is a Python float; the model takes it as a rational,
  and float rounding of the product and of the quotient is left out.
\<close>

definition patched_run ::
  "env \<Rightarrow> Logfire \<Rightarrow> rat \<Rightarrow> (Handle \<Rightarrow> world \<Rightarrow> (exn + pyvalue) \<times> world)
     \<Rightarrow> Handle \<Rightarrow> world \<Rightarrow> (exn + pyvalue) \<times> world" where
  "patched_run ev logfire slow_duration original_run self w =
     (let start_time = clock w in
      case original_run self w of
        (Inl e, w1) \<Rightarrow> (Inl e, w1)
      | (Inr return_value, w1) \<Rightarrow>
          (let duration = clock w1 - start_time in
           if slow_duration \<le> of_int duration then
             (case callback_attributes ev (heap w1) (callback self) of
                Inl e \<Rightarrow> (Inr return_value, w1)
              | Inr attrs \<Rightarrow>
                  (Inr return_value,
                   snd (sink_call logfire
                          (WarnCall (lf_tags logfire)
                             ''Async {name} blocked for {duration:.3f} seconds''
                             (of_int duration / of_int ONE_SECOND_IN_NANOSECONDS) attrs) w1)))
           else (Inr return_value, w1)))"







section \<open>\<open>logfire/integrations/_fastapi.py\<close>\<close>

subsection \<open>Requests, routes and resolved values\<close>

text \<open>
  A route is an \<open>APIRoute\<close> (with its \<open>operation_id\<close>, possibly \<open>None\<close>) or an
  \<open>APIWebSocketRoute\<close>.
\<close>

datatype route_class = APIRoute "string option" | APIWebSocketRoute

record Route =
  route_path :: string
  route_name :: string
  route_class :: route_class

text \<open>
  The connection is a \<open>Request\<close> (with its \<open>method\<close>) or a \<open>WebSocket\<close>.
  \<open>req_url\<close> is \<open>get_host_port_url_tuple(request.scope)[2]\<close> and \<open>scope_route\<close> is
  \<open>request.scope.get('route')\<close>: \<open>None\<close> when the scope has no such key.
\<close>

datatype connection = Request string | WebSocket

record request =
  req_conn :: connection
  req_app :: nat
  req_url :: string
  scope_route :: "Route option"

text \<open>
  \<open>_InstrumentedValues\<close> is a \<open>dict\<close> subclass with a \<open>request\<close> attribute: a values
  mapping is a plain dictionary or an instrumented one carrying the request.
\<close>

datatype values_map = Values values_dict | InstrumentedValues values_dict request

fun items :: "values_map \<Rightarrow> values_dict" where
  "items (Values d) = d"
| "items (InstrumentedValues d r) = d"

text \<open>
  The result of \<open>solve_dependencies\<close> is a tuple: the values, the errors, and the
  further components (\<open>result[1:]\<close> is the second component of the pair).
\<close>

type_synonym solved = "values_map \<times> string list \<times> pyval list"

fun is_framework_object :: "pyval \<Rightarrow> bool" where
  "is_framework_object (UserValue s) = False"
| "is_framework_object v = True"

fun attr_truthy :: "attr \<Rightarrow> bool" where
  "attr_truthy (AttrValues d) = (d \<noteq> [])"
| "attr_truthy (AttrErrors es) = (es \<noteq> [])"
| "attr_truthy (AttrStr s) = (s \<noteq> [])"
| "attr_truthy AttrNone = False"

text \<open>\<open>not attributes\<close>: \<open>None\<close> and the empty dictionary are falsy.\<close>

fun falsy :: "attributes option \<Rightarrow> bool" where
  "falsy None = True"
| "falsy (Some a) = (a = [])"

text \<open>\<open>attributes.get('errors')\<close> as a condition.\<close>

definition get_truthy :: "attributes \<Rightarrow> string \<Rightarrow> bool" where
  "get_truthy a k = (case map_of a k of None \<Rightarrow> False | Some v \<Rightarrow> attr_truthy v)"

subsection \<open>The closure of one call of \<open>instrument_fastapi\<close>\<close>

text \<open>
  The patched functions are closures over the locals of the call that made them:
  the tagged sink, the app, the mapper, the parsed exclusion list (its \<open>url_disabled\<close>),
  and the variable \<open>instrumenting\<close>, a cell of its own for every call, known here by
  its index.
\<close>

record closure =
  logfire_instance :: Logfire
  app :: nat
  request_attributes_mapper :: "request \<Rightarrow> attributes \<Rightarrow> exn + attributes option"
  excluded_urls_list :: "string \<Rightarrow> bool"
  cell :: nat

definition default_request_attributes_mapper ::
  "request \<Rightarrow> attributes \<Rightarrow> exn + attributes option" where
  "default_request_attributes_mapper rq attributes = Inr (Some attributes)"

definition instrumenting_request :: "closure \<Rightarrow> bool \<Rightarrow> request \<Rightarrow> bool" where
  "instrumenting_request cl instr rq =
     (let url = req_url rq
      in instr \<and> req_app rq = app cl \<and> \<not> excluded_urls_list cl url)"

subsection \<open>\<open>patched_solve_dependencies\<close>\<close>

text \<open>Lines 74 to 84: the attribute bundle handed to the mapper.\<close>

definition build_attributes :: "solved \<Rightarrow> attributes" where
  "build_attributes result =
     [(''values'', AttrValues (filter (\<lambda>(k, v). \<not> is_framework_object v) (items (fst result)))),
      (''errors'', AttrErrors (fst (snd result)))]"

text \<open>Lines 87 to 90: the values are wrapped for a \<open>Request\<close>, not for a \<open>WebSocket\<close>.\<close>

definition substitute_values :: "request \<Rightarrow> solved \<Rightarrow> solved" where
  "substitute_values rq result =
     (case req_conn rq of
        Request m \<Rightarrow> (InstrumentedValues (items (fst result)) rq, snd result)
      | WebSocket \<Rightarrow> result)"

text \<open>Lines 105 to 116: the attributes added after the mapper has run.\<close>

definition add_request_attributes :: "request \<Rightarrow> attributes \<Rightarrow> attributes" where
  "add_request_attributes rq attributes =
     (let a1 = (case req_conn rq of
                  Request m \<Rightarrow> AList.update ''http.method'' (AttrStr m) attributes
                | WebSocket \<Rightarrow> attributes)
      in case scope_route rq of
           None \<Rightarrow> a1
         | Some route \<Rightarrow>
             (let a2 = AList.update ''fastapi.route.name'' (AttrStr (route_name route))
                         (AList.update ''http.route'' (AttrStr (route_path route)) a1)
              in case route_class route of
                   APIRoute operation_id \<Rightarrow>
                     AList.update ''fastapi.route.operation_id''
                       (case operation_id of None \<Rightarrow> AttrNone | Some s \<Rightarrow> AttrStr s) a2
                 | APIWebSocketRoute \<Rightarrow> a2))"

text \<open>
  The handler \<open>except Exception\<close> of line 119: the diagnostic is reported and the
  function goes on to \<open>return result\<close>, unless the diagnostic call itself raises.
\<close>

definition log_failure :: "closure \<Rightarrow> solved \<Rightarrow> world \<Rightarrow> (exn + solved) \<times> world" where
  "log_failure cl result w =
     (case sink_call (logfire_instance cl)
             (ExceptionCall (lf_tags (logfire_instance cl)) ''Error logging FastAPI arguments'') w of
        (Inl e, w') \<Rightarrow> (Inl e, w')
      | (Inr u, w') \<Rightarrow> (Inr result, w'))"

definition patched_solve_dependencies ::
  "closure \<Rightarrow> bool \<Rightarrow> (request \<Rightarrow> world \<Rightarrow> (exn + solved) \<times> world)
     \<Rightarrow> request \<Rightarrow> world \<Rightarrow> (exn + solved) \<times> world" where
  "patched_solve_dependencies cl instr original_solve_dependencies rq w =
     (case original_solve_dependencies rq w of
        (Inl e, w1) \<Rightarrow> (Inl e, w1)
      | (Inr result, w1) \<Rightarrow>
          if \<not> instrumenting_request cl instr rq then (Inr result, w1)
          else
            (let attributes = build_attributes result;
                 result' = substitute_values rq result
             in case request_attributes_mapper cl rq attributes of
                  Inl e \<Rightarrow> log_failure cl result' w1
                | Inr mapped \<Rightarrow>
                    if falsy mapped then (Inr result', w1)
                    else
                      (let attrs = (case mapped of Some a \<Rightarrow> a | None \<Rightarrow> []);
                           lvl = (if get_truthy attrs ''errors'' then Error else Debug);
                           attrs' = add_request_attributes rq attrs
                       in case sink_call (logfire_instance cl)
                                 (LogCall (lf_tags (logfire_instance cl)) lvl
                                    ''FastAPI arguments'' attrs') w1 of
                            (Inl e, w2) \<Rightarrow> log_failure cl result' w2
                          | (Inr u, w2) \<Rightarrow> (Inr result', w2))))"

subsection \<open>\<open>patched_run_endpoint_function\<close>\<close>

text \<open>
  The span is made by the module-level \<open>logfire.span\<close>, the default instance, not by
  \<open>logfire_instance\<close>. Its arguments are evaluated before the call:
  \<open>request.method\<close>, then \<open>request.scope['route'].path\<close>, a \<open>KeyError\<close> when the scope
  has no route. The \<open>with\<close> statement leaves the span before the function returns or
  raises; the span does not suppress the exception.
\<close>

definition patched_run_endpoint_function ::
  "closure \<Rightarrow> Logfire \<Rightarrow> (nat \<Rightarrow> values_map \<Rightarrow> world \<Rightarrow> (exn + pyvalue) \<times> world)
     \<Rightarrow> nat \<Rightarrow> values_map \<Rightarrow> world \<Rightarrow> (exn + pyvalue) \<times> world" where
  "patched_run_endpoint_function cl logfire original_run_endpoint_function dependant vals w =
     (case vals of
        InstrumentedValues d rq \<Rightarrow>
          if req_app rq = app cl then
            (case req_conn rq of
               WebSocket \<Rightarrow> (Inl (AttributeError ''method''), w)
             | Request m \<Rightarrow>
                 (case scope_route rq of
                    None \<Rightarrow> (Inl (KeyError ''route''), w)
                  | Some route \<Rightarrow>
                      (case sink_call logfire
                              (SpanCall (lf_tags logfire) ''{method} {route} endpoint function''
                                 m (route_path route)) w of
                         (Inl e, w1) \<Rightarrow> (Inl e, w1)
                       | (Inr u, w1) \<Rightarrow>
                           (case original_run_endpoint_function dependant vals w1 of
                              (r, w2) \<Rightarrow> (r, w2\<lparr>trace := trace w2 @ [SpanExit]\<rparr>)))))
          else original_run_endpoint_function dependant vals w
      | Values d \<Rightarrow> original_run_endpoint_function dependant vals w)"

subsection \<open>\<open>instrument_fastapi\<close> and \<open>uninstrument_context\<close>\<close>

datatype solve_entry = Solve_dependencies | Patched_solve closure solve_entry

datatype endpoint_entry = Run_endpoint_function | Patched_endpoint closure endpoint_entry

text \<open>
  The module \<open>fastapi.routing\<close> with its two patch points, the \<open>instrumenting\<close> cells of
  the closures made so far, and the apps the OpenTelemetry instrumentor holds.
\<close>

record routing =
  solve_dependencies :: solve_entry
  run_endpoint_function :: endpoint_entry
  instrumenting :: "nat \<Rightarrow> bool"
  cells :: nat
  otel_apps :: "nat set"

record host =
  host_solve_dependencies :: "request \<Rightarrow> world \<Rightarrow> (exn + solved) \<times> world"
  host_run_endpoint_function :: "nat \<Rightarrow> values_map \<Rightarrow> world \<Rightarrow> (exn + pyvalue) \<times> world"
  logfire_default :: Logfire

fun exec_solve ::
  "host \<Rightarrow> (nat \<Rightarrow> bool) \<Rightarrow> solve_entry \<Rightarrow> request \<Rightarrow> world \<Rightarrow> (exn + solved) \<times> world" where
  "exec_solve hst flags Solve_dependencies = host_solve_dependencies hst"
| "exec_solve hst flags (Patched_solve cl original) =
     patched_solve_dependencies cl (flags (cell cl)) (exec_solve hst flags original)"

fun exec_endpoint ::
  "host \<Rightarrow> endpoint_entry \<Rightarrow> nat \<Rightarrow> values_map \<Rightarrow> world \<Rightarrow> (exn + pyvalue) \<times> world" where
  "exec_endpoint hst Run_endpoint_function = host_run_endpoint_function hst"
| "exec_endpoint hst (Patched_endpoint cl original) =
     patched_run_endpoint_function cl (logfire_default hst) (exec_endpoint hst original)"

text \<open>
  \<open>excluded\<close> is the \<open>url_disabled\<close> of the exclusion list lines 44 to 55 parse. The
  function returns the context manager (which holds the cell and the app) and the
  patched module.
\<close>

definition instrument_fastapi ::
  "Logfire \<Rightarrow> nat \<Rightarrow> (request \<Rightarrow> attributes \<Rightarrow> exn + attributes option) option \<Rightarrow> bool
     \<Rightarrow> (string \<Rightarrow> bool) \<Rightarrow> routing \<Rightarrow> (nat \<times> nat) \<times> routing" where
  "instrument_fastapi logfire_inst ap mapper use_opentelemetry_instrumentation excluded st =
     (let cl = \<lparr>logfire_instance = with_tags logfire_inst ''fastapi'',
                app = ap,
                request_attributes_mapper =
                  (case mapper of None \<Rightarrow> default_request_attributes_mapper | Some f \<Rightarrow> f),
                excluded_urls_list = excluded,
                cell = cells st\<rparr>
      in ((cells st, ap),
          st\<lparr>otel_apps := (if use_opentelemetry_instrumentation
                            then insert ap (otel_apps st) else otel_apps st),
             instrumenting := (instrumenting st)(cells st := True),
             cells := Suc (cells st),
             solve_dependencies := Patched_solve cl (solve_dependencies st),
             run_endpoint_function := Patched_endpoint cl (run_endpoint_function st)\<rparr>))"

definition uninstrument_context ::
  "nat \<times> nat \<Rightarrow> (routing \<Rightarrow> (exn + unit) \<times> routing) \<Rightarrow> routing \<Rightarrow> (exn + unit) \<times> routing" where
  "uninstrument_context ctx body st =
     (case body st of
        (r, st') \<Rightarrow>
          (r, st'\<lparr>instrumenting := (instrumenting st')(fst ctx := False),
                  otel_apps := otel_apps st' - {snd ctx}\<rparr>))"

fun patch_depth :: "solve_entry \<Rightarrow> nat" where
  "patch_depth Solve_dependencies = 0"
| "patch_depth (Patched_solve cl original) = Suc (patch_depth original)"

fun endpoint_patch_depth :: "endpoint_entry \<Rightarrow> nat" where
  "endpoint_patch_depth Run_endpoint_function = 0"
| "endpoint_patch_depth (Patched_endpoint cl original) = Suc (endpoint_patch_depth original)"

section \<open>Notions used to state the properties\<close>

subsection \<open>Wrapper chains\<close>

text \<open>
  \<open>follow hp n a\<close> is the object reached from \<open>a\<close> after \<open>n\<close> steps along
  \<open>__wrapped__\<close>; the chain of \<open>a\<close> ends at \<open>u\<close> after \<open>n\<close> steps when \<open>u\<close> is
  reached and has no \<open>__wrapped__\<close>.
\<close>

fun follow :: "(addr \<Rightarrow> pyobj) \<Rightarrow> nat \<Rightarrow> addr \<Rightarrow> addr option" where
  "follow hp 0 a = Some a"
| "follow hp (Suc n) a = (case wrapped_attr (hp a) of None \<Rightarrow> None | Some w \<Rightarrow> follow hp n w)"

definition chain_end :: "(addr \<Rightarrow> pyobj) \<Rightarrow> nat \<Rightarrow> addr \<Rightarrow> addr \<Rightarrow> bool" where
  "chain_end hp n a u = (follow hp n a = Some u \<and> wrapped_attr (hp u) = None)"

subsection \<open>The resolver as the specification words it\<close>

text \<open>
  Section 4.2 of the specification, branch by branch. The display name of a plain
  callable is the first non-empty of the qualified name, the plain name and the function
  name of the source location, and the safe representation when there is none.
\<close>

definition spec_display_name :: "pyobj \<Rightarrow> StackInfo \<Rightarrow> string" where
  "spec_display_name obj loc =
     (case find (\<lambda>s. s \<noteq> [])
             [getattr_str (qualname_attr obj), getattr_str (name_attr obj),
              getattr_str (code_function loc)] of
        Some s \<Rightarrow> s
      | None \<Rightarrow> safe_repr obj)"

definition spec_plain_callable :: "env \<Rightarrow> pyobj \<Rightarrow> CallbackAttributes" where
  "spec_plain_callable ev obj =
     (let loc = (case code_attr obj of None \<Rightarrow> no_info | Some c \<Rightarrow> get_code_object_info ev c)
      in with_name (''callback '' @ spec_display_name obj loc) loc)"

fun spec_task_location :: "env \<Rightarrow> coro \<Rightarrow> StackInfo option" where
  "spec_task_location ev NotCoroutineType = None"
| "spec_task_location ev (CoroutineType (Some fr) c) = Some (get_stack_info_from_frame ev fr)"
| "spec_task_location ev (CoroutineType None c) = Some (get_code_object_info ev c)"

definition spec_task_bound :: "env \<Rightarrow> Task \<Rightarrow> CallbackAttributes" where
  "spec_task_bound ev t =
     (case spec_task_location ev (get_coro t) of
        None \<Rightarrow> with_name (''task '' @ get_name t) no_info
      | Some loc \<Rightarrow>
          with_name
            (''task '' @ get_name t @
               (case code_function loc of
                  None \<Rightarrow> []
                | Some f \<Rightarrow> if f = [] then [] else '' ('' @ f @ '')''))
            loc)"

text \<open>The specification's "unwrap one layer of wrapping".\<close>

definition spec_unwrap_one_layer :: "(addr \<Rightarrow> pyobj) \<Rightarrow> addr \<Rightarrow> addr" where
  "spec_unwrap_one_layer hp cb = (case wrapped_attr (hp cb) of None \<Rightarrow> cb | Some w \<Rightarrow> w)"

definition spec_callback_attributes :: "env \<Rightarrow> (addr \<Rightarrow> pyobj) \<Rightarrow> addr \<Rightarrow> CallbackAttributes" where
  "spec_callback_attributes ev hp cb =
     (case self_attr (hp cb) of
        TaskSelf t \<Rightarrow> spec_task_bound ev t
      | _ \<Rightarrow> spec_plain_callable ev (hp (spec_unwrap_one_layer hp cb)))"

subsection \<open>Concrete inputs\<close>

definition example_env :: env where
  "example_env =
     \<lparr>get_stack_info_from_frame =
        (\<lambda>f. \<lparr>code_filepath = Some (co_filename (f_code f)), code_lineno = Some (f_lineno f),
               code_function = Some (co_name (f_code f))\<rparr>),
      get_code_object_info =
        (\<lambda>c. \<lparr>code_filepath = Some (co_filename c), code_lineno = Some (co_firstlineno c),
               code_function = Some (co_name c)\<rparr>),
      getrecursionlimit = 1000\<rparr>"

definition plain_object :: pyobj where
  "plain_object =
     \<lparr>self_attr = NoSelf, wrapped_attr = None, code_attr = None, qualname_attr = None,
      name_attr = None, repr = Inr ''<object>''\<rparr>"

text \<open>A callable that is its own \<open>__wrapped__\<close>.\<close>

definition looping_heap :: "addr \<Rightarrow> pyobj" where
  "looping_heap a = plain_object\<lparr>wrapped_attr := Some 0\<rparr>"

text \<open>A function \<open>inner\<close> at address 2 decorated twice: \<open>outer\<close> wraps \<open>middle\<close> wraps \<open>inner\<close>.\<close>

definition layered_heap :: "addr \<Rightarrow> pyobj" where
  "layered_heap a =
     (if a = 0 then plain_object\<lparr>wrapped_attr := Some 1, qualname_attr := Some ''outer''\<rparr>
      else if a = 1 then plain_object\<lparr>wrapped_attr := Some 2, qualname_attr := Some ''middle''\<rparr>
      else plain_object\<lparr>qualname_attr := Some ''inner''\<rparr>)"

text \<open>A task \<open>Task-1\<close> whose coroutine \<open>main\<close> is suspended at line 12 of \<open>app.py\<close>.\<close>

definition task_heap :: "addr \<Rightarrow> pyobj" where
  "task_heap a =
     plain_object\<lparr>self_attr :=
       TaskSelf \<lparr>get_name = ''Task-1'',
                 get_coro = CoroutineType
                   (Some \<lparr>f_code = \<lparr>co_filename = ''app.py'', co_name = ''main'', co_firstlineno = 10\<rparr>,
                          f_lineno = 12\<rparr>)
                   \<lparr>co_filename = ''app.py'', co_name = ''main'', co_firstlineno = 10\<rparr>\<rparr>\<rparr>"

definition quiet_sink :: Logfire where
  "quiet_sink = \<lparr>lf_tags = [], lf_raises = (\<lambda>e. None)\<rparr>"

text \<open>A sink every call of which raises.\<close>

definition failing_sink :: Logfire where
  "failing_sink = \<lparr>lf_tags = [], lf_raises = (\<lambda>e. Some (Exception ''sink unavailable''))\<rparr>"

text \<open>A host \<open>Handle._run\<close> that takes two seconds and returns \<open>None\<close>.\<close>

definition slow_host :: "Handle \<Rightarrow> world \<Rightarrow> (exn + pyvalue) \<times> world" where
  "slow_host h w = (Inr PyNone, w\<lparr>clock := clock w + 2000000000\<rparr>)"

definition example_world :: "(addr \<Rightarrow> pyobj) \<Rightarrow> world" where
  "example_world hp = \<lparr>clock = 0, heap = hp, trace = []\<rparr>"



text \<open>The closure of an activation for app 1 that excludes the health URL.\<close>

definition example_closure ::
  "Logfire \<Rightarrow> (request \<Rightarrow> attributes \<Rightarrow> exn + attributes option) \<Rightarrow> closure" where
  "example_closure lf f =
     \<lparr>logfire_instance = with_tags lf ''fastapi'', app = 1, request_attributes_mapper = f,
      excluded_urls_list = (\<lambda>u. u = ''http://testserver/health''), cell = 0\<rparr>"

definition items_route :: Route where
  "items_route =
     \<lparr>route_path = ''/items/{id}'', route_name = ''read_item'', route_class = APIRoute None\<rparr>"

text \<open>A \<open>GET\<close> request of app 1, with or without a route in its scope.\<close>

definition example_request :: "Route option \<Rightarrow> request" where
  "example_request rt =
     \<lparr>req_conn = Request ''GET'', req_app = 1, req_url = ''http://testserver/items/x'',
      scope_route = rt\<rparr>"

text \<open>A resolution with one user value, the injected request, and one validation error.\<close>

definition example_result :: solved where
  "example_result =
     (Values [(''id'', UserValue ''x''), (''request'', RequestObj)],
      [''id: value is not a valid integer''], [])"

definition example_solve :: "request \<Rightarrow> world \<Rightarrow> (exn + solved) \<times> world" where
  "example_solve rq w = (Inr example_result, w)"


definition opt_out_mapper :: "request \<Rightarrow> attributes \<Rightarrow> exn + attributes option" where
  "opt_out_mapper rq a = Inr None"

definition raising_mapper :: "request \<Rightarrow> attributes \<Rightarrow> exn + attributes option" where
  "raising_mapper rq a = Inl (Exception ''mapper failed'')"

definition empty_world :: world where
  "empty_world = \<lparr>clock = 0, heap = (\<lambda>a. plain_object), trace = []\<rparr>"

definition fresh_routing :: routing where
  "fresh_routing =
     \<lparr>solve_dependencies = Solve_dependencies, run_endpoint_function = Run_endpoint_function,
      instrumenting = (\<lambda>i. False), cells = 0, otel_apps = {}\<rparr>"

definition no_body :: "routing \<Rightarrow> (exn + unit) \<times> routing" where
  "no_body st = (Inr (), st)"

text \<open>App 1 instrumented once, and instrumented a second time on top.\<close>

definition instrumented_once :: "(nat \<times> nat) \<times> routing" where
  "instrumented_once = instrument_fastapi quiet_sink 1 None True (\<lambda>u. False) fresh_routing"

definition instrumented_twice :: "(nat \<times> nat) \<times> routing" where
  "instrumented_twice =
     instrument_fastapi quiet_sink 1 None True (\<lambda>u. False) (snd instrumented_once)"

section \<open>Properties of the latency monitor and the resolver\<close>

declare unwrap_loop.simps [simp del]

subsection \<open>\<open>inspect.unwrap\<close> on chains that end\<close>

lemma chain_end_unique:
  "chain_end hp j a u \<Longrightarrow> chain_end hp k a u' \<Longrightarrow> j = k"
proof (induction j arbitrary: k a)
  case 0
  then show ?case by (cases k) (auto simp: chain_end_def)
next
  case (Suc j)
  show ?case
  proof (cases k)
    case 0
    with Suc.prems show ?thesis by (auto simp: chain_end_def split: option.splits)
  next
    case (Suc k')
    from Suc.prems(1) obtain w where w: "wrapped_attr (hp a) = Some w" "chain_end hp j w u"
      by (auto simp: chain_end_def split: option.splits)
    from Suc.prems(2) Suc w(1) have "chain_end hp k' w u'"
      by (auto simp: chain_end_def)
    with Suc.IH [OF w(2)] Suc show ?thesis by simp
  qed
qed

text \<open>
  The loop invariant: every object in \<open>memo\<close> is at least as far from the end of the
  chain as the current one, so the next object is new, and \<open>memo\<close> has room for the
  rest of the chain.
\<close>

lemma unwrap_loop_chain_end:
  "chain_end hp n func u \<Longrightarrow> length memo + n \<le> limit
     \<Longrightarrow> (\<forall>x \<in> set memo. \<exists>k. n \<le> k \<and> chain_end hp k x u)
     \<Longrightarrow> unwrap_loop hp limit memo func = Inr u"
proof (induction n arbitrary: memo func)
  case 0
  then show ?case by (simp add: chain_end_def unwrap_loop.simps)
next
  case (Suc n)
  from Suc.prems(1) obtain w where w: "wrapped_attr (hp func) = Some w" "chain_end hp n w u"
    by (auto simp: chain_end_def split: option.splits)
  have fresh: "w \<notin> set memo"
  proof
    assume "w \<in> set memo"
    with Suc.prems(3) obtain k where k: "Suc n \<le> k" "chain_end hp k w u" by blast
    from chain_end_unique [OF w(2) k(2)] k(1) show False by simp
  qed
  have room: "\<not> limit \<le> length memo" using Suc.prems(2) by simp
  have inv: "\<forall>x \<in> set (memo @ [w]). \<exists>k. n \<le> k \<and> chain_end hp k x u"
    using Suc.prems(3) w(2) by (auto intro: Suc_leD)
  have "unwrap_loop hp limit (memo @ [w]) w = Inr u"
    using Suc.IH [OF w(2) _ inv] Suc.prems(2) by simp
  with w(1) fresh room show ?case by (simp add: unwrap_loop.simps [of hp limit memo func])
qed

lemma unwrap_chain_end:
  "chain_end hp n cb u \<Longrightarrow> n < limit \<Longrightarrow> unwrap hp limit cb = Inr u"
  unfolding unwrap_def by (rule unwrap_loop_chain_end) auto



lemma chain_end_layered_heap: "chain_end layered_heap 2 0 2"
  by (simp add: chain_end_def layered_heap_def plain_object_def numeral_2_eq_2)


subsection \<open>The resolver against the specification's two branches\<close>

lemma callback_attributes_task:
  "self_attr (hp cb) = TaskSelf t \<Longrightarrow> callback_attributes ev hp cb = Inr (spec_task_bound ev t)"
proof (cases "get_coro t")
  case (CoroutineType fr c)
  assume "self_attr (hp cb) = TaskSelf t"
  with CoroutineType show ?thesis
    by (cases fr)
       (auto simp: callback_attributes_def spec_task_bound_def Let_def getattr_str_def
             split: option.splits)
next
  case NotCoroutineType
  assume "self_attr (hp cb) = TaskSelf t"
  with NotCoroutineType show ?thesis
    by (simp add: callback_attributes_def spec_task_bound_def)
qed

lemma spec_display_name_eq:
  "spec_display_name obj loc =
     str_or (str_or (getattr_str (qualname_attr obj))
               (str_or (getattr_str (name_attr obj)) (getattr_str (code_function loc))))
       (safe_repr obj)"
  by (simp add: spec_display_name_def str_or_def)

lemma callback_attributes_plain:
  assumes "\<forall>t. self_attr (hp cb) \<noteq> TaskSelf t"
      and "unwrap hp (getrecursionlimit ev) cb = Inr u"
  shows "callback_attributes ev hp cb = Inr (spec_plain_callable ev (hp u))"
  using assms
  by (cases "self_attr (hp cb)")
     (auto simp: callback_attributes_def spec_plain_callable_def spec_display_name_eq Let_def
           split: option.splits)

text \<open>
  Claim C7, as amended. A callback bound to a task resolves as the specification's task
  branch says: the name is \<open>task\<close> and the task's name, the location comes from the
  suspended frame of a live coroutine and from the code object of a finished one, and the
  function name, when one was resolved, follows in parentheses. Any other callable
  resolves as the specification's plain branch says (location from the code object, name
  by the priority qualified name, plain name, code function, safe representation), applied
  to the object at the end of the whole \<open>__wrapped__\<close> chain, not to the object one layer
  down.
\<close>

theorem callback_attributes_follows_spec_branches:
  "(\<forall>t. self_attr (hp cb) = TaskSelf t
        \<longrightarrow> callback_attributes ev hp cb = Inr (spec_task_bound ev t)) \<and>
   ((\<forall>t. self_attr (hp cb) \<noteq> TaskSelf t) \<and> chain_end hp n cb u \<and> n < getrecursionlimit ev
        \<longrightarrow> callback_attributes ev hp cb = Inr (spec_plain_callable ev (hp u)))"
  using callback_attributes_task callback_attributes_plain unwrap_chain_end by blast

theorem callback_attributes_follows_spec_branches_witness:
  "callback_attributes example_env layered_heap 0
     = Inr \<lparr>code_filepath = None, code_lineno = None, code_function = None,
            name = ''callback inner''\<rparr>
   \<and> callback_attributes example_env task_heap 0
     = Inr \<lparr>code_filepath = Some ''app.py'', code_lineno = Some 12, code_function = Some ''main'',
            name = ''task Task-1 (main)''\<rparr>"
proof -
  have a: "\<forall>t. self_attr (layered_heap 0) \<noteq> TaskSelf t"
    by (simp add: layered_heap_def plain_object_def)
  have b: "(2::nat) < getrecursionlimit example_env" by (simp add: example_env_def)
  have c: "self_attr (task_heap 0) = TaskSelf \<lparr>get_name = ''Task-1'',
                 get_coro = CoroutineType
                   (Some \<lparr>f_code = \<lparr>co_filename = ''app.py'', co_name = ''main'', co_firstlineno = 10\<rparr>,
                          f_lineno = 12\<rparr>)
                   \<lparr>co_filename = ''app.py'', co_name = ''main'', co_firstlineno = 10\<rparr>\<rparr>"
    by (simp add: task_heap_def plain_object_def)
  show ?thesis
    using callback_attributes_follows_spec_branches [of layered_heap 0 example_env 2 2]
      callback_attributes_follows_spec_branches [of task_heap 0 example_env 0 0]
      a b c chain_end_layered_heap
    by (simp add: spec_plain_callable_def spec_display_name_def
        layered_heap_def plain_object_def with_name_def no_info_def
        getattr_str_def spec_task_bound_def example_env_def)
qed

text \<open>
  Claim C7 as stated fails: on a function decorated twice the source names the innermost
  function, where unwrapping one layer names the middle one.
\<close>

theorem callback_attributes_unwraps_every_layer:
  "callback_attributes example_env layered_heap 0
     = Inr \<lparr>code_filepath = None, code_lineno = None, code_function = None,
            name = ''callback inner''\<rparr>
   \<and> spec_callback_attributes example_env layered_heap 0
     = \<lparr>code_filepath = None, code_lineno = None, code_function = None,
        name = ''callback middle''\<rparr>"
proof -
  have u: "unwrap layered_heap (getrecursionlimit example_env) 0 = Inr 2"
    by (rule unwrap_chain_end [OF chain_end_layered_heap]) (simp add: example_env_def)
  have "\<forall>t. self_attr (layered_heap 0) \<noteq> TaskSelf t"
    by (simp add: layered_heap_def plain_object_def)
  from callback_attributes_plain [OF this u] show ?thesis
    by (simp add: spec_callback_attributes_def spec_plain_callable_def spec_display_name_def
        spec_unwrap_one_layer_def layered_heap_def plain_object_def with_name_def no_info_def
        getattr_str_def)
qed




subsection \<open>The latency monitor\<close>






section \<open>Properties of the request pipeline interceptor\<close>

lemma substitute_values_contents:
  "items (fst (substitute_values rq result)) = items (fst result)
   \<and> snd (substitute_values rq result) = snd result"
  by (simp add: substitute_values_def split: connection.splits)

lemma patched_solve_original_raises:
  "original rq w = (Inl e, w1) \<Longrightarrow> patched_solve_dependencies cl instr original rq w = (Inl e, w1)"
  by (simp add: patched_solve_dependencies_def)

lemma patched_solve_not_instrumenting:
  "original rq w = (Inr result, w1) \<Longrightarrow> \<not> instrumenting_request cl instr rq
     \<Longrightarrow> patched_solve_dependencies cl instr original rq w = (Inr result, w1)"
  by (simp add: patched_solve_dependencies_def)

lemma patched_solve_opt_out:
  "original rq w = (Inr result, w1) \<Longrightarrow> instrumenting_request cl instr rq
     \<Longrightarrow> request_attributes_mapper cl rq (build_attributes result) = Inr m \<Longrightarrow> falsy m
     \<Longrightarrow> patched_solve_dependencies cl instr original rq w = (Inr (substitute_values rq result), w1)"
  by (simp add: patched_solve_dependencies_def Let_def)

lemma patched_solve_mapper_raises:
  "original rq w = (Inr result, w1) \<Longrightarrow> instrumenting_request cl instr rq
     \<Longrightarrow> request_attributes_mapper cl rq (build_attributes result) = Inl e
     \<Longrightarrow> patched_solve_dependencies cl instr original rq w
           = log_failure cl (substitute_values rq result) w1"
  by (simp add: patched_solve_dependencies_def Let_def)

lemma patched_solve_logs:
  "original rq w = (Inr result, w1) \<Longrightarrow> instrumenting_request cl instr rq
     \<Longrightarrow> request_attributes_mapper cl rq (build_attributes result) = Inr (Some attrs)
     \<Longrightarrow> attrs \<noteq> []
     \<Longrightarrow> patched_solve_dependencies cl instr original rq w =
          (case sink_call (logfire_instance cl)
                  (LogCall (lf_tags (logfire_instance cl))
                     (if get_truthy attrs ''errors'' then Error else Debug)
                     ''FastAPI arguments'' (add_request_attributes rq attrs)) w1 of
             (Inl e, w2) \<Rightarrow> log_failure cl (substitute_values rq result) w2
           | (Inr u, w2) \<Rightarrow> (Inr (substitute_values rq result), w2))"
  by (simp add: patched_solve_dependencies_def Let_def)

lemma log_failure_returns:
  "lf_raises (logfire_instance cl)
      (ExceptionCall (lf_tags (logfire_instance cl)) ''Error logging FastAPI arguments'') = None
   \<Longrightarrow> log_failure cl result w =
         (Inr result,
          w\<lparr>trace := trace w @
             [ExceptionCall (lf_tags (logfire_instance cl)) ''Error logging FastAPI arguments'']\<rparr>)"
  by (simp add: log_failure_def sink_call_def)

lemma patched_solve_returns:
  assumes o: "original rq w = (Inr result, w1)"
      and d: "lf_raises (logfire_instance cl)
                (ExceptionCall (lf_tags (logfire_instance cl)) ''Error logging FastAPI arguments'') = None"
  shows "patched_solve_dependencies cl instr original rq w = (Inr result, w1)
         \<or> (\<exists>w2. patched_solve_dependencies cl instr original rq w
                    = (Inr (substitute_values rq result), w2))"
proof (cases "instrumenting_request cl instr rq")
  case False
  with o show ?thesis by (simp add: patched_solve_not_instrumenting)
next
  case True
  show ?thesis
  proof (cases "request_attributes_mapper cl rq (build_attributes result)")
    case (Inl e)
    with o True d show ?thesis
      by (simp add: patched_solve_mapper_raises log_failure_returns)
  next
    case (Inr m)
    show ?thesis
    proof (cases "falsy m")
      case True
      with o \<open>instrumenting_request cl instr rq\<close> Inr show ?thesis
        by (simp add: patched_solve_opt_out)
    next
      case False
      then obtain attrs where m: "m = Some attrs" "attrs \<noteq> []" by (cases m) auto
      with o True Inr d show ?thesis
        by (simp add: patched_solve_logs log_failure_returns sink_call_def split: option.splits)
    qed
  qed
qed

text \<open>
  Claim C5. When the resolution returns and the activation's flag is false, or the request
  is not of the instrumented app, or its URL is excluded, or the mapper returns a falsy
  value, the stage makes no call to the sink (the world is the one the resolution left) and
  returns the resolved values and errors with their contents unchanged; in the first
  three cases the result is the original object itself, in the last the values may be
  the instrumented dictionary of equal contents.
\<close>

theorem opted_out_request_unchanged:
  assumes "original rq w = (Inr result, w1)"
      and "\<not> instr \<or> req_app rq \<noteq> app cl \<or> excluded_urls_list cl (req_url rq)
           \<or> (\<exists>m. request_attributes_mapper cl rq (build_attributes result) = Inr m \<and> falsy m)"
  shows "\<exists>result'. patched_solve_dependencies cl instr original rq w = (Inr result', w1)
           \<and> items (fst result') = items (fst result) \<and> snd result' = snd result
           \<and> (\<not> instr \<or> req_app rq \<noteq> app cl \<or> excluded_urls_list cl (req_url rq)
                \<longrightarrow> result' = result)"
proof (cases "instrumenting_request cl instr rq")
  case False
  with assms(1) show ?thesis by (simp add: patched_solve_not_instrumenting)
next
  case True
  with assms(2) obtain m where m: "request_attributes_mapper cl rq (build_attributes result) = Inr m" "falsy m"
    by (auto simp: instrumenting_request_def)
  with assms(1) True show ?thesis
    by (simp add: patched_solve_opt_out substitute_values_contents instrumenting_request_def)
qed

text \<open>
  Claim C1, as amended. The latency monitor's replacement has the outcome of the original
  run, whatever the resolver and the sink do. The dependency stage raises what the
  original resolution raises, with no call to the sink; when the resolution returns, and
  the diagnostic call \<open>Error logging FastAPI arguments\<close> itself returns, the stage returns
  the resolved values and errors with unchanged contents; a mapper that raises is reported
  by that one diagnostic call.
\<close>

theorem instrumentation_failures_leave_outcome:
  "fst (patched_run ev lf slow original_run h wl) = fst (original_run h wl)
   \<and> (\<forall>e w1. original rq w = (Inl e, w1)
        \<longrightarrow> patched_solve_dependencies cl instr original rq w = (Inl e, w1))
   \<and> (\<forall>result w1. original rq w = (Inr result, w1)
         \<and> lf_raises (logfire_instance cl)
              (ExceptionCall (lf_tags (logfire_instance cl)) ''Error logging FastAPI arguments'') = None
        \<longrightarrow> (\<exists>result' w2. patched_solve_dependencies cl instr original rq w = (Inr result', w2)
               \<and> items (fst result') = items (fst result) \<and> snd result' = snd result))
   \<and> (\<forall>result w1 e. original rq w = (Inr result, w1) \<and> instrumenting_request cl instr rq
         \<and> request_attributes_mapper cl rq (build_attributes result) = Inl e
         \<and> lf_raises (logfire_instance cl)
              (ExceptionCall (lf_tags (logfire_instance cl)) ''Error logging FastAPI arguments'') = None
        \<longrightarrow> snd (patched_solve_dependencies cl instr original rq w) =
              w1\<lparr>trace := trace w1 @
                 [ExceptionCall (lf_tags (logfire_instance cl)) ''Error logging FastAPI arguments'']\<rparr>)"
proof (intro conjI allI impI)
  show "fst (patched_run ev lf slow original_run h wl) = fst (original_run h wl)"
    by (simp add: patched_run_def Let_def split: prod.splits sum.splits)
next
  fix e w1 assume "original rq w = (Inl e, w1)"
  then show "patched_solve_dependencies cl instr original rq w = (Inl e, w1)"
    by (rule patched_solve_original_raises)
next
  fix result w1
  assume a: "original rq w = (Inr result, w1)
         \<and> lf_raises (logfire_instance cl)
              (ExceptionCall (lf_tags (logfire_instance cl)) ''Error logging FastAPI arguments'') = None"
  then have "patched_solve_dependencies cl instr original rq w = (Inr result, w1)
         \<or> (\<exists>w2. patched_solve_dependencies cl instr original rq w
                    = (Inr (substitute_values rq result), w2))"
    by (simp add: patched_solve_returns)
  then show "\<exists>result' w2. patched_solve_dependencies cl instr original rq w = (Inr result', w2)
               \<and> items (fst result') = items (fst result) \<and> snd result' = snd result"
    using substitute_values_contents [of rq result] by blast
next
  fix result w1 e
  assume "original rq w = (Inr result, w1) \<and> instrumenting_request cl instr rq
         \<and> request_attributes_mapper cl rq (build_attributes result) = Inl e
         \<and> lf_raises (logfire_instance cl)
              (ExceptionCall (lf_tags (logfire_instance cl)) ''Error logging FastAPI arguments'') = None"
  then show "snd (patched_solve_dependencies cl instr original rq w) =
              w1\<lparr>trace := trace w1 @
                 [ExceptionCall (lf_tags (logfire_instance cl)) ''Error logging FastAPI arguments'']\<rparr>"
    by (simp add: patched_solve_mapper_raises log_failure_returns)
qed

text \<open>
  Claim C1 as stated fails: with a sink whose calls raise, the report raises, the handler's
  diagnostic call raises in turn, and the stage raises where the resolution had returned.
\<close>

theorem failing_diagnostic_breaks_request:
  "fst (example_solve (example_request (Some items_route)) empty_world) = Inr example_result
   \<and> fst (patched_solve_dependencies (example_closure failing_sink default_request_attributes_mapper)
            True example_solve (example_request (Some items_route)) empty_world)
       = Inl (Exception ''sink unavailable'')"
  by (simp add: patched_solve_dependencies_def example_solve_def example_closure_def
      example_request_def instrumenting_request_def default_request_attributes_mapper_def
      build_attributes_def example_result_def failing_sink_def with_tags_def sink_call_def
      log_failure_def Let_def)


theorem instrumentation_failures_leave_outcome_witness:
  "fst (patched_run example_env failing_sink 1 slow_host \<lparr>callback = 0\<rparr> (example_world looping_heap))
     = Inr PyNone
   \<and> (\<exists>result' w2.
         patched_solve_dependencies (example_closure quiet_sink raising_mapper) True example_solve
           (example_request (Some items_route)) empty_world = (Inr result', w2)
         \<and> items (fst result') = [(''id'', UserValue ''x''), (''request'', RequestObj)]
         \<and> snd result' = ([''id: value is not a valid integer''], []))
   \<and> snd (patched_solve_dependencies (example_closure quiet_sink raising_mapper) True example_solve
           (example_request (Some items_route)) empty_world)
       = \<lparr>clock = 0, heap = (\<lambda>a. plain_object),
          trace = [ExceptionCall [''fastapi''] ''Error logging FastAPI arguments'']\<rparr>"
  using instrumentation_failures_leave_outcome [where ev = example_env and lf = failing_sink and slow = 1 and original_run = slow_host
      and h = "\<lparr>callback = 0\<rparr>" and wl = "example_world looping_heap"
      and original = example_solve and rq = "example_request (Some items_route)"
      and w = empty_world and cl = "example_closure quiet_sink raising_mapper" and instr = True]
  by (simp add: slow_host_def example_solve_def example_result_def example_closure_def
      quiet_sink_def with_tags_def raising_mapper_def instrumenting_request_def
      example_request_def empty_world_def)

theorem opted_out_request_unchanged_witness:
  "(\<exists>result'.
      patched_solve_dependencies (example_closure quiet_sink opt_out_mapper) True example_solve
        (example_request (Some items_route)) empty_world = (Inr result', empty_world)
      \<and> items (fst result') = [(''id'', UserValue ''x''), (''request'', RequestObj)]
      \<and> snd result' = ([''id: value is not a valid integer''], []))
   \<and> patched_solve_dependencies (example_closure quiet_sink default_request_attributes_mapper) False
        example_solve (example_request (Some items_route)) empty_world
   = (Inr example_result, empty_world)"
proof -
  have o: "example_solve (example_request (Some items_route)) empty_world
             = (Inr example_result, empty_world)"
    by (simp add: example_solve_def)
  have m: "\<exists>m. request_attributes_mapper (example_closure quiet_sink opt_out_mapper)
                  (example_request (Some items_route)) (build_attributes example_result) = Inr m
                \<and> falsy m"
    by (simp add: example_closure_def opt_out_mapper_def)
  have i: "items (fst example_result) = [(''id'', UserValue ''x''), (''request'', RequestObj)]"
          "snd example_result = ([''id: value is not a valid integer''], [])"
    by (simp_all add: example_result_def)
  from opted_out_request_unchanged [where original = example_solve and instr = True
      and cl = "example_closure quiet_sink opt_out_mapper", OF o] m
    opted_out_request_unchanged [where original = example_solve and instr = False
      and cl = "example_closure quiet_sink default_request_attributes_mapper", OF o]
  show ?thesis
    unfolding i by blast
qed

subsection \<open>The arguments report\<close>











subsection \<open>The endpoint span\<close>












subsection \<open>Activation and deactivation\<close>

lemma patched_solve_disabled:
  "patched_solve_dependencies cl False original = original"
proof (intro ext)
  fix rq w
  show "patched_solve_dependencies cl False original rq w = original rq w"
    by (cases "original rq w")
       (simp add: patched_solve_dependencies_def instrumenting_request_def split: sum.splits)
qed

lemma exec_solve_all_disabled:
  "(\<forall>i. \<not> flags i) \<Longrightarrow> exec_solve hst flags entry = host_solve_dependencies hst"
  by (induction entry) (simp_all add: patched_solve_disabled)

text \<open>
  Claim C4, as amended. Every activation installs a new layer on each of the two patch
  points, over whatever is installed, with a flag of its own: the flag is true after the
  activation and false after its deactivation, no other activation's flag changes, and
  deactivation leaves both patch points as they are. A dependency-stage layer whose flag
  is false is the function it wraps.
\<close>

theorem activation_adds_patch_layer:
  assumes "instrument_fastapi lf ap mapper otel excluded st = (ctx, st')"
      and "uninstrument_context ctx body st' = (r, st'')"
  shows "patch_depth (solve_dependencies st') = Suc (patch_depth (solve_dependencies st))
       \<and> endpoint_patch_depth (run_endpoint_function st')
           = Suc (endpoint_patch_depth (run_endpoint_function st))
       \<and> (\<exists>cl. solve_dependencies st' = Patched_solve cl (solve_dependencies st)
                \<and> run_endpoint_function st' = Patched_endpoint cl (run_endpoint_function st)
                \<and> cell cl = fst ctx \<and> app cl = ap)
       \<and> fst ctx = cells st
       \<and> instrumenting st' (fst ctx)
       \<and> (\<forall>i. i \<noteq> fst ctx \<longrightarrow> instrumenting st' i = instrumenting st i)
       \<and> \<not> instrumenting st'' (fst ctx)
       \<and> (\<forall>i. i \<noteq> fst ctx \<longrightarrow> instrumenting st'' i = instrumenting (snd (body st')) i)
       \<and> solve_dependencies st'' = solve_dependencies (snd (body st'))
       \<and> run_endpoint_function st'' = run_endpoint_function (snd (body st'))
       \<and> (\<forall>cl original. patched_solve_dependencies cl False original = original)"
proof -
  have a: "ctx = (cells st, ap)"
    using assms(1) by (auto simp: instrument_fastapi_def Let_def)
  have b: "solve_dependencies st' =
             Patched_solve \<lparr>logfire_instance = with_tags lf ''fastapi'', app = ap,
                request_attributes_mapper =
                  (case mapper of None \<Rightarrow> default_request_attributes_mapper | Some f \<Rightarrow> f),
                excluded_urls_list = excluded, cell = cells st\<rparr> (solve_dependencies st)"
    using assms(1) by (auto simp: instrument_fastapi_def Let_def)
  have c: "run_endpoint_function st' =
             Patched_endpoint \<lparr>logfire_instance = with_tags lf ''fastapi'', app = ap,
                request_attributes_mapper =
                  (case mapper of None \<Rightarrow> default_request_attributes_mapper | Some f \<Rightarrow> f),
                excluded_urls_list = excluded, cell = cells st\<rparr> (run_endpoint_function st)"
    using assms(1) by (auto simp: instrument_fastapi_def Let_def)
  have d: "instrumenting st' = (instrumenting st)(cells st := True)"
    using assms(1) by (auto simp: instrument_fastapi_def Let_def)
  have e: "st'' = (snd (body st'))\<lparr>instrumenting := (instrumenting (snd (body st')))(fst ctx := False),
                  otel_apps := otel_apps (snd (body st')) - {snd ctx}\<rparr>"
    using assms(2) by (auto simp: uninstrument_context_def split: prod.splits)
  show ?thesis
    by (simp add: a b c d patched_solve_disabled) (simp add: e a)
qed

text \<open>
  Claim C4 as stated fails: a second activation patches both points again, and after the
  second activation alone is deactivated the first one's flag is still true.
\<close>

theorem second_activation_patches_again:
  "patch_depth (solve_dependencies (snd instrumented_twice)) = 2
   \<and> endpoint_patch_depth (run_endpoint_function (snd instrumented_twice)) = 2
   \<and> instrumenting (snd (uninstrument_context (fst instrumented_twice) no_body
                            (snd instrumented_twice))) 0
   \<and> \<not> instrumenting (snd (uninstrument_context (fst instrumented_twice) no_body
                              (snd instrumented_twice))) 1"
  by (simp add: instrumented_twice_def instrumented_once_def instrument_fastapi_def fresh_routing_def Let_def
      uninstrument_context_def no_body_def)

theorem activation_adds_patch_layer_witness:
  "patch_depth (solve_dependencies (snd instrumented_once)) = 1
   \<and> instrumenting (snd instrumented_once) 0
   \<and> \<not> instrumenting
         (snd (uninstrument_context (fst instrumented_once) no_body (snd instrumented_once))) 0
   \<and> patch_depth (solve_dependencies
         (snd (uninstrument_context (fst instrumented_once) no_body (snd instrumented_once)))) = 1"
proof -
  obtain ctx st1 where a: "instrumented_once = (ctx, st1)"
    by (cases instrumented_once)
  obtain r st2 where b: "uninstrument_context ctx no_body st1 = (r, st2)"
    by (cases "uninstrument_context ctx no_body st1")
  have f: "patch_depth (solve_dependencies fresh_routing) = 0" "cells fresh_routing = 0"
    by (simp_all add: fresh_routing_def)
  have n: "snd (no_body st1) = st1" by (simp add: no_body_def)
  from activation_adds_patch_layer [OF a [unfolded instrumented_once_def] b] show ?thesis
    by (auto simp: a b n f)
qed

end
